theory Spec2Isabelle
  imports Complex_Main "HOL-Library.Sublist" "HOL-Library.Multiset"
begin

section \<open>Python strings and values\<close>

text \<open>
  Strings are lists of characters. \<open>str.lower\<close> and \<open>str.upper\<close> are modelled on the
  letters A-Z and a-z; every other character is left as it is (domain names, brand
  names and error messages are taken to be ASCII text).
\<close>

definition lower_char :: "char \<Rightarrow> char" where
  "lower_char c =
     (case map_of (zip ''ABCDEFGHIJKLMNOPQRSTUVWXYZ'' ''abcdefghijklmnopqrstuvwxyz'') c of
        None \<Rightarrow> c | Some l \<Rightarrow> l)"

definition upper_char :: "char \<Rightarrow> char" where
  "upper_char c =
     (case map_of (zip ''abcdefghijklmnopqrstuvwxyz'' ''ABCDEFGHIJKLMNOPQRSTUVWXYZ'') c of
        None \<Rightarrow> c | Some u \<Rightarrow> u)"

definition lower :: "string \<Rightarrow> string" where
  "lower s = map lower_char s"

definition upper :: "string \<Rightarrow> string" where
  "upper s = map upper_char s"

text \<open>\<open>k in d\<close> on strings: \<open>k\<close> occurs in \<open>d\<close> as a contiguous substring.\<close>

fun py_in :: "string \<Rightarrow> string \<Rightarrow> bool" where
  "py_in k [] = (k = [])"
| "py_in k (c # cs) = (prefix k (c # cs) \<or> py_in k cs)"



text \<open>\<open>s.replace(old, '')\<close> for a non-empty \<open>old\<close>: one pass from the left.\<close>

function remove_all :: "string \<Rightarrow> string \<Rightarrow> string" where
  "remove_all old [] = []"
| "remove_all old (c # cs) =
     (if old \<noteq> [] \<and> prefix old (c # cs)
      then remove_all old (drop (length old) (c # cs))
      else c # remove_all old cs)"
  by pat_completeness auto
termination
  by (relation "measure (\<lambda>(old, s). length s)") (auto simp: Suc_lessI)

text \<open>Decimal rendering of a natural number, as \<open>str(n)\<close> and \<open>f"{n}"\<close> give it.\<close>

fun show_nat :: "nat \<Rightarrow> string" where
  "show_nat n =
     (if n < 10 then [''0123456789'' ! n]
      else show_nat (n div 10) @ [''0123456789'' ! (n mod 10)])"

text \<open>
  Python values as they occur in verdict dictionaries and in decoded JSON. A float is
  kept as the rational number its literal denotes; no arithmetic is done on these.
  A dictionary is an association list in insertion order, read with \<open>map_of\<close>.
\<close>

datatype pyval =
    PNone
  | PBool bool
  | PInt int
  | PFloat rat
  | PStr string
  | PList "pyval list"
  | PDict "(string \<times> pyval) list"

type_synonym pydict = "(string \<times> pyval) list"

text \<open>\<open>d.get(k, default)\<close> on a dictionary.\<close>

definition dict_get :: "pydict \<Rightarrow> string \<Rightarrow> pyval \<Rightarrow> pyval" where
  "dict_get d k dflt = (case map_of d k of None \<Rightarrow> dflt | Some v \<Rightarrow> v)"

text \<open>Truth value of a Python value, as \<open>if x:\<close> tests it.\<close>

fun truthy :: "pyval \<Rightarrow> bool" where
  "truthy PNone = False"
| "truthy (PBool b) = b"
| "truthy (PInt i) = (i \<noteq> 0)"
| "truthy (PFloat f) = (f \<noteq> 0)"
| "truthy (PStr s) = (s \<noteq> [])"
| "truthy (PList xs) = (xs \<noteq> [])"
| "truthy (PDict kv) = (kv \<noteq> [])"

text \<open>
  \<open>x.get(k, default)\<close> on any value: only a dictionary has the method, every other
  value raises AttributeError (\<open>None\<close> here).
\<close>

fun py_get :: "pyval \<Rightarrow> string \<Rightarrow> pyval \<Rightarrow> pyval option" where
  "py_get (PDict kv) k dflt = Some (dict_get kv k dflt)"
| "py_get _ k dflt = None"

text \<open>
  \<open>for x in v\<close>: a list gives its elements, a dictionary its keys, a string its
  characters; the other values raise TypeError (\<open>None\<close> here).
\<close>

fun py_iter :: "pyval \<Rightarrow> pyval list option" where
  "py_iter (PList xs) = Some xs"
| "py_iter (PDict kv) = Some (map (\<lambda>(k, v). PStr k) kv)"
| "py_iter (PStr s) = Some (map (\<lambda>c. PStr [c]) s)"
| "py_iter _ = None"

text \<open>\<open>x.lower()\<close> on any value: AttributeError unless \<open>x\<close> is a string.\<close>

fun py_lower :: "pyval \<Rightarrow> pyval option" where
  "py_lower (PStr s) = Some (PStr (lower s))"
| "py_lower _ = None"

section \<open>Binary floating point, as far as the percentage string needs it\<close>

text \<open>
  A double is modelled by the rational number it denotes. \<open>fl\<close> rounds a rational to
  the nearest double (53 significant bits, ties to even); overflow and subnormal
  numbers are not modelled, the values rounded here lie between \<open>1 / len(domains)\<close>
  and about 100.
\<close>

definition round_half_even :: "rat \<Rightarrow> int" where
  "round_half_even x =
     (let f = \<lfloor>x\<rfloor>; r = x - of_int f
      in if r < 1 / 2 then f else if 1 / 2 < r then f + 1 else if even f then f else f + 1)"

fun bitlen :: "nat \<Rightarrow> nat" where
  "bitlen n = (if n = 0 then 0 else Suc (bitlen (n div 2)))"

text \<open>The exponent \<open>e\<close> with \<open>2 ^ e \<le> x < 2 ^ (e + 1)\<close>, for \<open>x > 0\<close>.\<close>

definition ilog2 :: "rat \<Rightarrow> int" where
  "ilog2 x =
     (let (p, q) = quotient_of x;
          e0 = int (bitlen (nat p)) - int (bitlen (nat q)) - 1
      in if 2 powi (e0 + 1) \<le> x then e0 + 1 else e0)"

definition fl :: "rat \<Rightarrow> rat" where
  "fl x =
     (if x = 0 then 0
      else let u = 2 powi (ilog2 \<bar>x\<bar> - 52) in of_int (round_half_even (x / u)) * u)"

text \<open>\<open>a / b\<close> on two integers and \<open>x * y\<close> on two floats: the exact result, rounded.\<close>

definition py_truediv :: "nat \<Rightarrow> nat \<Rightarrow> rat" where
  "py_truediv a b = fl (of_nat a / of_nat b)"

definition py_fmul :: "rat \<Rightarrow> rat \<Rightarrow> rat" where
  "py_fmul x y = fl (x * y)"

text \<open>
  \<open>f"{x:.1f}"\<close>: the exact value of the double, rounded to one decimal place with ties
  to even, written with its sign, integer part, a point and one digit.
\<close>

definition format_1f :: "rat \<Rightarrow> string" where
  "format_1f x =
     (let t = nat (round_half_even (\<bar>x\<bar> * 10))
      in (if x < 0 then ''-'' else '''') @ show_nat (t div 10) @ ''.'' @ show_nat (t mod 10))"

text \<open>
  \<open>round(x, 1)\<close> on a float: the same decimal rounding, converted back to the nearest
  double.
\<close>

definition py_round1 :: "rat \<Rightarrow> rat" where
  "py_round1 x = fl (of_int (round_half_even (x * 10)) / 10)"

section \<open>agent/models.py\<close>

record ThreatAnalysis =
  domain :: string
  is_threat :: pyval
  confidence :: pyval
  reason :: pyval
  risk_level :: pyval
  timestamp :: string

record AnalysisMetadata =
  brand :: string
  keyword :: string
  total_domains :: nat
  threat_count :: nat
  filtered_count :: nat
  false_positive_reduction :: string
  timestamp :: string
  batch_size :: int

record BrandAnalysisResult =
  metadata :: AnalysisMetadata
  threats :: "ThreatAnalysis list"
  filtered :: "ThreatAnalysis list"

text \<open>The brand configuration dictionary, with its four fixed keys.\<close>

record BrandConfig =
  name :: string
  industry :: string
  description :: string
  context_notes :: "string list"

section \<open>agent/utils.py\<close>

subsection \<open>ResultsProcessor.process_results\<close>

definition unavailable_verdict :: pydict where
  "unavailable_verdict =
     [(''relevant'', PBool True),
      (''confidence'', PFloat 0.5),
      (''reason'', PStr ''LLM evaluation unavailable''),
      (''risk_level'', PStr ''medium'')]"

text \<open>The body of the loop up to the construction of the ThreatAnalysis.\<close>

definition threat_analysis_of :: "(string \<rightharpoonup> pydict) \<Rightarrow> string \<Rightarrow> string \<Rightarrow> ThreatAnalysis" where
  "threat_analysis_of llm_results ts d =
     (let result = (case llm_results d of None \<Rightarrow> unavailable_verdict | Some r \<Rightarrow> r)
      in \<lparr>domain = d,
          is_threat = dict_get result ''relevant'' (PBool True),
          confidence = dict_get result ''confidence'' (PFloat 0.5),
          reason = dict_get result ''reason'' (PStr ''''),
          risk_level = dict_get result ''risk_level'' (PStr ''medium''),
          timestamp = ts\<rparr>)"

text \<open>
  The loop over \<open>domains\<close>, with the two lists it appends to.
\<close>

fun partition_loop ::
  "(string \<rightharpoonup> pydict) \<Rightarrow> string \<Rightarrow> string list \<Rightarrow>
   ThreatAnalysis list \<times> ThreatAnalysis list \<Rightarrow> ThreatAnalysis list \<times> ThreatAnalysis list" where
  "partition_loop llm_results ts [] (th, fi) = (th, fi)"
| "partition_loop llm_results ts (d # ds) (th, fi) =
     (let threat_analysis = threat_analysis_of llm_results ts d
      in if truthy (is_threat threat_analysis)
         then partition_loop llm_results ts ds (th @ [threat_analysis], fi)
         else partition_loop llm_results ts ds (th, fi @ [threat_analysis]))"

text \<open>
  \<open>f"{len(filtered) / len(domains) * 100:.1f}%" if domains else "0.0%"\<close>, on the two
  lengths.
\<close>

definition reduction_string :: "nat \<Rightarrow> nat \<Rightarrow> string" where
  "reduction_string n_filtered n_domains =
     (if n_domains \<noteq> 0
      then format_1f (py_fmul (py_truediv n_filtered n_domains) 100) @ ''%''
      else ''0.0%'')"

text \<open>\<open>ts\<close> is the value of \<open>datetime.now().isoformat()\<close> at the call.\<close>

definition process_results ::
  "string list \<Rightarrow> (string \<rightharpoonup> pydict) \<Rightarrow> BrandConfig \<Rightarrow> int \<Rightarrow> string \<Rightarrow> BrandAnalysisResult" where
  "process_results domains llm_results brand_config bsz ts =
     (let (th, fi) = partition_loop llm_results ts domains ([], [])
      in \<lparr>metadata =
            \<lparr>brand = name brand_config,
             keyword = lower (name brand_config),
             total_domains = length domains,
             threat_count = length th,
             filtered_count = length fi,
             false_positive_reduction = reduction_string (length fi) (length domains),
             timestamp = ts,
             batch_size = bsz\<rparr>,
          threats = th,
          filtered = fi\<rparr>)"

subsection \<open>DomainLoader\<close>


text \<open>
  \<open>os.path.basename\<close> and \<open>os.path.join\<close> with two arguments, as posixpath defines
  them: the base name is what follows the last slash; joining discards the first part
  when the second one is absolute.
\<close>

definition basename :: "string \<Rightarrow> string" where
  "basename p = rev (takeWhile (\<lambda>c. c \<noteq> CHR ''/'') (rev p))"

definition path_join :: "string \<Rightarrow> string \<Rightarrow> string" where
  "path_join a b =
     (if b \<noteq> [] \<and> hd b = CHR ''/'' then b
      else if a = [] \<or> last a = CHR ''/'' then a @ b
      else a @ ''/'' @ b)"

text \<open>
  \<open>os.path.splitext(p)[0]\<close>: the extension starts at the last dot of the last path
  component, unless only dots precede it there.
\<close>

definition splitext_root :: "string \<Rightarrow> string" where
  "splitext_root p =
     (let fname = basename p;
          dir = take (length p - length fname) p;
          stem = rev (tl (dropWhile (\<lambda>c. c \<noteq> CHR ''.'') (rev fname)))
      in if CHR ''.'' \<in> set fname \<and> (\<exists>c \<in> set stem. c \<noteq> CHR ''.'') then dir @ stem else p)"

datatype error = ValueError string | FileNotFoundError string



subsection \<open>BrandProtectionConfig\<close>

text \<open>
  An optional string argument is \<open>None\<close> or a string; \<open>x or y\<close> takes \<open>y\<close> when \<open>x\<close> is
  \<open>None\<close> or empty, and an f-string writes \<open>None\<close> as the text None.
\<close>

definition or_else :: "string option \<Rightarrow> string \<Rightarrow> string" where
  "or_else x y = (case x of None \<Rightarrow> y | Some s \<Rightarrow> if s = [] then y else s)"

definition fmt_opt :: "string option \<Rightarrow> string" where
  "fmt_opt x = (case x of None \<Rightarrow> ''None'' | Some s \<Rightarrow> s)"

definition create_dynamic_brand_config ::
  "string \<Rightarrow> string option \<Rightarrow> string option \<Rightarrow> string option \<Rightarrow> BrandConfig" where
  \<open>create_dynamic_brand_config brand_name company_name industry0 description0 =
     (let industry1 = or_else industry0 ''Business'';
          description1 = or_else description0
            (fmt_opt company_name
              @ '' is a company that users want to protect from domain impersonation and cybersquatting.'');
          company_name1 = or_else company_name brand_name
      in \<lparr>name = upper company_name1,
          industry = industry1,
          description = description1,
          context_notes =
            [''Focus on domains that could confuse customers of '' @ company_name1,
             ''Consider domains that impersonate '' @ brand_name @ '' services'',
             ''Filter out domains where "'' @ lower brand_name @ ''" appears coincidentally'',
             ''Evaluate based on business context and customer confusion potential'']\<rparr>)\<close>


subsection \<open>ResultsProcessor.save_results\<close>

text \<open>
  What is written: a CSV file is its column names and the rows given to the writer, the
  JSON file is the result that is dumped. The text the csv and json modules produce
  from them, and the creation of directories, are not modelled.
\<close>

datatype payload =
    CsvFile "string list" "ThreatAnalysis list"
  | JsonFile BrandAnalysisResult

definition output_base_path :: "string \<Rightarrow> string" where
  \<open>output_base_path output_path =
     (if \<not> prefix ''data/'' output_path \<and> \<not> prefix (''data'' @ [CHR 0x5C]) output_path
      then path_join ''data'' (remove_all ''.json'' (remove_all ''.csv'' output_path))
      else splitext_root output_path)\<close>

definition fieldnames :: "string list" where
  "fieldnames = [''domain'', ''is_threat'', ''confidence'', ''reason'', ''risk_level'', ''timestamp'']"

definition save_results :: "BrandAnalysisResult \<Rightarrow> string \<Rightarrow> (string \<times> payload) list" where
  "save_results res output_path =
     (let base = output_base_path output_path
      in (if threats res \<noteq> [] then [(base @ ''_threats.csv'', CsvFile fieldnames (threats res))]
          else [])
       @ (if filtered res \<noteq> [] then [(base @ ''_filtered.csv'', CsvFile fieldnames (filtered res))]
          else [])
       @ [(base @ ''_complete.json'', JsonFile res)])"

section \<open>agent/agent.py\<close>

subsection \<open>GeminiAnalyzer._parse_response\<close>

text \<open>
  \<open>re.search(r'\{.*\}', response, re.DOTALL)\<close> and \<open>group(0)\<close>: the match starts at the
  first opening brace and, the star being greedy and the dot matching every character,
  ends at the last closing brace after it; there is no match when no closing brace
  follows the first opening one.
\<close>

definition re_search_braces :: "string \<Rightarrow> string option" where
  "re_search_braces response =
     (let s = dropWhile (\<lambda>c. c \<noteq> CHR ''{'') response;
          m = rev (dropWhile (\<lambda>c. c \<noteq> CHR ''}'') (rev s))
      in if m = [] then None else Some m)"

text \<open>\<open>for domain in batch: results[domain] = f(domain)\<close>.\<close>

fun assign_each ::
  "(string \<Rightarrow> pydict) \<Rightarrow> string list \<Rightarrow> (string \<rightharpoonup> pydict) \<Rightarrow> (string \<rightharpoonup> pydict)" where
  "assign_each f [] res = res"
| "assign_each f (d # ds) res = assign_each f ds (res(d \<mapsto> f d))"

definition no_threat_verdict :: "string \<Rightarrow> pydict" where
  "no_threat_verdict d =
     [(''domain'', PStr d),
      (''relevant'', PBool False),
      (''confidence'', PFloat 0.95),
      (''reason'', PStr ''No threat detected''),
      (''risk_level'', PStr ''low'')]"

text \<open>
  The dictionary stored for a threat entry \<open>kv\<close> naming the batch domain \<open>d\<close>, with the
  lower-cased risk level \<open>rl\<close>.
\<close>

definition threat_verdict :: "string \<Rightarrow> pydict \<Rightarrow> string \<Rightarrow> pydict" where
  "threat_verdict d kv rl =
     [(''domain'', PStr d),
      (''relevant'', PBool True),
      (''confidence'', dict_get kv ''confidence'' (PFloat 0.8)),
      (''reason'', dict_get kv ''reason'' (PStr ''Potential threat'')),
      (''risk_level'', PStr rl)]"

text \<open>
  The loop over the entries of \<open>threats\<close>. An entry that is not a dictionary has no
  \<open>get\<close>, and a risk level that is not a string has no \<open>lower\<close>: both raise, and the
  handler at the end of the method returns the empty dictionary (\<open>None\<close> here). A
  \<open>domain\<close> value that is not a string is in no batch.
\<close>

fun threats_loop ::
  "pyval list \<Rightarrow> string list \<Rightarrow> (string \<rightharpoonup> pydict) \<Rightarrow> (string \<rightharpoonup> pydict) option" where
  "threats_loop [] batch_domains res = Some res"
| "threats_loop (threat # rest) batch_domains res =
     (case py_get threat ''domain'' PNone of
        None \<Rightarrow> None
      | Some (PStr d) \<Rightarrow>
          if d \<in> set batch_domains then
            (case threat of
               PDict kv \<Rightarrow>
                 (case py_lower (dict_get kv ''risk_level'' (PStr ''medium'')) of
                    None \<Rightarrow> None
                  | Some (PStr rl) \<Rightarrow>
                      threats_loop rest batch_domains (res(d \<mapsto> threat_verdict d kv rl))
                  | Some _ \<Rightarrow> None)
             | _ \<Rightarrow> None)
          else threats_loop rest batch_domains res
      | Some _ \<Rightarrow> threats_loop rest batch_domains res)"

text \<open>What follows \<open>json.loads\<close> inside the inner \<open>try\<close>; \<open>None\<close> when it raises.\<close>

definition verdicts_of_data :: "pyval \<Rightarrow> string list \<Rightarrow> (string \<rightharpoonup> pydict) option" where
  "verdicts_of_data data batch_domains =
     (case py_get data ''threats'' (PList []) of
        None \<Rightarrow> None
      | Some ths \<Rightarrow>
          (let res = assign_each no_threat_verdict batch_domains Map.empty
           in case py_iter ths of
                None \<Rightarrow> None
              | Some entries \<Rightarrow> threats_loop entries batch_domains res))"

text \<open>
  \<open>loads\<close> stands for \<open>json.loads\<close>: the decoded value, or \<open>None\<close> when it raises. Every
  exception ends in one of the three \<open>return {}\<close>.
\<close>

definition parse_response ::
  "(string \<Rightarrow> pyval option) \<Rightarrow> string \<Rightarrow> string list \<Rightarrow> (string \<rightharpoonup> pydict)" where
  "parse_response loads response batch_domains =
     (case re_search_braces response of
        None \<Rightarrow> Map.empty
      | Some json_str \<Rightarrow>
          (case loads json_str of
             None \<Rightarrow> Map.empty
           | Some data \<Rightarrow>
               (case verdicts_of_data data batch_domains of
                  None \<Rightarrow> Map.empty
                | Some res \<Rightarrow> res)))"



subsection \<open>GeminiAnalyzer.analyze_domains\<close>

text \<open>
  One generation request either raises, with \<open>str(e)\<close> as its message, or returns a
  response: its text (empty when the response or its text is missing) and its token
  counts, if it carries them. The service is a function from the number of requests
  made before to the outcome of the next one; \<open>rnd\<close> gives the successive values of
  \<open>random.random()\<close>. Seconds are rational numbers, added exactly.
\<close>

datatype outcome =
    Raises string
  | Reply string "(int \<times> int \<times> int) option"

text \<open>The calls of \<open>Logger.trace_warning_info\<close> made by \<open>analyze_domains\<close>.\<close>

datatype warning =
    NotConfigured
  | InvalidBatchSize int
  | BatchError nat nat string
  | Overloaded rat
  | MaxRetriesReached nat
  | NonRecoverable nat string

text \<open>
  The state the method works on: the result dictionary, the batches sent to the
  service so far, the arguments of \<open>time.sleep\<close> so far, the number of random draws, the
  warnings logged, and the three token counters of the analyzer.
\<close>

record client_state =
  results :: "string \<rightharpoonup> pydict"
  requests :: "string list list"
  sleeps :: "rat list"
  draws :: nat
  warnings :: "warning list"
  total_input_tokens :: int
  total_output_tokens :: int
  total_tokens_used :: int

text \<open>The state of a new analyzer: nothing sent, nothing logged, the counters at zero.\<close>

definition fresh_state :: client_state where
  "fresh_state =
     \<lparr>results = Map.empty, requests = [], sleeps = [], draws = 0, warnings = [],
      total_input_tokens = 0, total_output_tokens = 0, total_tokens_used = 0\<rparr>"


definition max_retries :: nat where
  "max_retries = 3"

definition base_wait :: nat where
  "base_wait = 15"

definition uniform :: "rat \<Rightarrow> rat \<Rightarrow> rat \<Rightarrow> rat" where
  "uniform a b r = a + (b - a) * r"

definition is_overload :: "string \<Rightarrow> bool" where
  "is_overload error_msg \<longleftrightarrow>
     py_in ''503'' error_msg \<or> py_in ''overloaded'' (lower error_msg)
       \<or> py_in ''unavailable'' (lower error_msg)"

definition fallback_verdict :: "string \<Rightarrow> string \<Rightarrow> pydict" where
  "fallback_verdict why d =
     [(''domain'', PStr d),
      (''relevant'', PBool True),
      (''confidence'', PFloat 0.5),
      (''reason'', PStr why),
      (''risk_level'', PStr ''medium'')]"

definition count_tokens :: "(int \<times> int \<times> int) option \<Rightarrow> client_state \<Rightarrow> client_state" where
  "count_tokens usage st =
     (case usage of
        None \<Rightarrow> st
      | Some (input_tokens, output_tokens, total_tokens) \<Rightarrow>
          st\<lparr>total_input_tokens := total_input_tokens st + input_tokens,
             total_output_tokens := total_output_tokens st + output_tokens,
             total_tokens_used := total_tokens_used st + total_tokens\<rparr>)"

text \<open>
  \<open>for attempt in range(max_retries)\<close> on one batch; the list holds the attempts still
  to run. \<open>break\<close> returns the state, \<open>continue\<close> and the end of the body go on with the
  rest of the list.
\<close>

fun attempts_loop ::
  "(nat \<Rightarrow> outcome) \<Rightarrow> (nat \<Rightarrow> rat) \<Rightarrow> (string \<Rightarrow> pyval option) \<Rightarrow> string list \<Rightarrow> nat \<Rightarrow>
   nat list \<Rightarrow> client_state \<Rightarrow> client_state" where
  "attempts_loop svc rnd loads batch batch_num [] st = st"
| "attempts_loop svc rnd loads batch batch_num (attempt # rest) st =
     (let st1 = st\<lparr>requests := requests st @ [batch]\<rparr>
      in case svc (length (requests st)) of
           Reply text usage \<Rightarrow>
             if text \<noteq> [] then
               (let st2 = count_tokens usage st1;
                    batch_results = parse_response loads text batch
                in st2\<lparr>results := results st2 ++ batch_results\<rparr>)
             else attempts_loop svc rnd loads batch batch_num rest st1
         | Raises error_msg \<Rightarrow>
             (let st2 = st1\<lparr>warnings := warnings st1 @ [BatchError batch_num (attempt + 1) error_msg]\<rparr>
              in if is_overload error_msg then
                   if attempt < max_retries - 1 then
                     (let wait_time = of_nat (base_wait * 2 ^ attempt) + uniform 0 5 (rnd (draws st2))
                      in attempts_loop svc rnd loads batch batch_num rest
                           (st2\<lparr>sleeps := sleeps st2 @ [wait_time],
                                draws := draws st2 + 1,
                                warnings := warnings st2 @ [Overloaded wait_time]\<rparr>))
                   else
                     attempts_loop svc rnd loads batch batch_num rest
                       (st2\<lparr>results :=
                              assign_each
                                (fallback_verdict
                                  (''API overloaded after '' @ show_nat max_retries @ '' retries''))
                                batch (results st2),
                            warnings := warnings st2 @ [MaxRetriesReached batch_num]\<rparr>)
                 else
                   st2\<lparr>results :=
                         assign_each (fallback_verdict (''API error: '' @ error_msg)) batch (results st2),
                       warnings := warnings st2 @ [NonRecoverable batch_num error_msg]\<rparr>))"


text \<open>
  \<open>for i in range(0, len(domains), batch_size)\<close>; the list holds the start indices still
  to run.
\<close>

fun batches_loop ::
  "(nat \<Rightarrow> outcome) \<Rightarrow> (nat \<Rightarrow> rat) \<Rightarrow> (string \<Rightarrow> pyval option) \<Rightarrow> string list \<Rightarrow> nat \<Rightarrow> nat \<Rightarrow>
   nat list \<Rightarrow> client_state \<Rightarrow> client_state" where
  "batches_loop svc rnd loads domains bsz total_batches [] st = st"
| "batches_loop svc rnd loads domains bsz total_batches (i # idxs) st =
     (let batch = take bsz (drop i domains);
          batch_num = i div bsz + 1;
          st1 = attempts_loop svc rnd loads batch batch_num [0..<max_retries] st;
          st2 = (if batch_num < total_batches
                 then st1\<lparr>sleeps := sleeps st1 @ [of_nat base_wait + uniform 0 3 (rnd (draws st1))],
                         draws := draws st1 + 1\<rparr>
                 else st1)
      in batches_loop svc rnd loads domains bsz total_batches idxs st2)"


subsection \<open>BrandProtectionAgent.analyze_domains\<close>



section \<open>Properties of the string functions\<close>

lemma py_in_iff: "py_in k d \<longleftrightarrow> (\<exists>p s. d = p @ k @ s)"
proof (induction d)
  case Nil
  then show ?case by auto
next
  case (Cons c cs)
  show ?case
  proof
    assume "py_in k (c # cs)"
    then have "prefix k (c # cs) \<or> py_in k cs" by simp
    then show "\<exists>p s. c # cs = p @ k @ s"
    proof
      assume "prefix k (c # cs)"
      then obtain s where "c # cs = k @ s" by (auto simp: prefix_def)
      then have "c # cs = [] @ k @ s" by simp
      then show ?thesis by blast
    next
      assume "py_in k cs"
      with Cons.IH obtain p s where "cs = p @ k @ s" by blast
      then have "c # cs = (c # p) @ k @ s" by simp
      then show ?thesis by blast
    qed
  next
    assume "\<exists>p s. c # cs = p @ k @ s"
    then obtain p s where ps: "c # cs = p @ k @ s" by blast
    show "py_in k (c # cs)"
    proof (cases p)
      case Nil
      with ps have "prefix k (c # cs)" by (simp add: prefix_def)
      then show ?thesis by simp
    next
      case (Cons a p')
      with ps have "cs = p' @ k @ s" by simp
      with Cons.IH have "py_in k cs" by blast
      then show ?thesis by simp
    qed
  qed
qed


section \<open>The results processor\<close>

lemma partition_loop_eq:
  "partition_loop res ts ds (th, fi) =
     (th @ map (threat_analysis_of res ts)
             (filter (\<lambda>d. truthy (is_threat (threat_analysis_of res ts d))) ds),
      fi @ map (threat_analysis_of res ts)
             (filter (\<lambda>d. \<not> truthy (is_threat (threat_analysis_of res ts d))) ds))"
  by (induction ds arbitrary: th fi) (simp_all add: Let_def)

lemma domain_threat_analysis_of: "domain (threat_analysis_of res ts d) = d"
  by (simp add: threat_analysis_of_def Let_def)

lemma threats_process_results:
  "threats (process_results ds res cfg bsz ts) =
     map (threat_analysis_of res ts)
       (filter (\<lambda>d. truthy (is_threat (threat_analysis_of res ts d))) ds)"
  by (simp add: process_results_def partition_loop_eq)

lemma filtered_process_results:
  "filtered (process_results ds res cfg bsz ts) =
     map (threat_analysis_of res ts)
       (filter (\<lambda>d. \<not> truthy (is_threat (threat_analysis_of res ts d))) ds)"
  by (simp add: process_results_def partition_loop_eq)

lemma threat_analysis_of_missing:
  "res d = None \<Longrightarrow>
   threat_analysis_of res ts d =
     \<lparr>domain = d, is_threat = PBool True, confidence = PFloat 0.5,
      reason = PStr ''LLM evaluation unavailable'', risk_level = PStr ''medium'',
      timestamp = ts\<rparr>"
  by (simp add: threat_analysis_of_def unavailable_verdict_def dict_get_def)

text \<open>
  Claim C1. For every list of input domains and every verdict mapping, also an empty or
  a partial one, \<open>process_results\<close> builds one ThreatAnalysis per input domain: the
  threats are the entries of the domains whose \<open>is_threat\<close> is true and the filtered ones
  those whose \<open>is_threat\<close> is false, each in input order; the entry of a domain carries
  that domain; the domains of the two lists together are the input domains, each as
  often as it occurs there; no domain is in both lists; the two lengths add up to the
  number of input domains; and a domain without a verdict gets the entry with
  \<open>is_threat\<close> true, confidence 0.5, reason "LLM evaluation unavailable" and risk level
  "medium".
\<close>

theorem C1_process_results_partition:
  "threats (process_results ds res cfg bsz ts) =
      map (threat_analysis_of res ts)
        (filter (\<lambda>d. truthy (is_threat (threat_analysis_of res ts d))) ds)
   \<and> filtered (process_results ds res cfg bsz ts) =
      map (threat_analysis_of res ts)
        (filter (\<lambda>d. \<not> truthy (is_threat (threat_analysis_of res ts d))) ds)
   \<and> (\<forall>d. domain (threat_analysis_of res ts d) = d)
   \<and> (\<forall>t \<in> set (threats (process_results ds res cfg bsz ts)). truthy (is_threat t))
   \<and> (\<forall>t \<in> set (filtered (process_results ds res cfg bsz ts)). \<not> truthy (is_threat t))
   \<and> mset (map domain (threats (process_results ds res cfg bsz ts)
                          @ filtered (process_results ds res cfg bsz ts))) = mset ds
   \<and> set (map domain (threats (process_results ds res cfg bsz ts)))
        \<inter> set (map domain (filtered (process_results ds res cfg bsz ts))) = {}
   \<and> length (threats (process_results ds res cfg bsz ts))
        + length (filtered (process_results ds res cfg bsz ts)) = length ds
   \<and> (\<forall>d. res d = None \<longrightarrow>
         threat_analysis_of res ts d =
           \<lparr>domain = d, is_threat = PBool True, confidence = PFloat 0.5,
            reason = PStr ''LLM evaluation unavailable'', risk_level = PStr ''medium'',
            timestamp = ts\<rparr>)"
proof -
  let ?mk = "threat_analysis_of res ts"
  let ?r = "process_results ds res cfg bsz ts"
  let ?P = "\<lambda>d. truthy (is_threat (?mk d))"
  have th: "threats ?r = map ?mk (filter ?P ds)"
    by (rule threats_process_results)
  have fi: "filtered ?r = map ?mk (filter (\<lambda>d. \<not> ?P d) ds)"
    by (rule filtered_process_results)
  have dom: "\<forall>d. domain (?mk d) = d"
    by (simp add: domain_threat_analysis_of)
  have dth: "map domain (threats ?r) = filter ?P ds"
    by (simp add: th comp_def domain_threat_analysis_of)
  have dfi: "map domain (filtered ?r) = filter (\<lambda>d. \<not> ?P d) ds"
    by (simp add: fi comp_def domain_threat_analysis_of)
  have t1: "\<forall>t \<in> set (threats ?r). truthy (is_threat t)"
    by (auto simp: th)
  have t2: "\<forall>t \<in> set (filtered ?r). \<not> truthy (is_threat t)"
    by (auto simp: fi)
  have ms: "mset (map domain (threats ?r @ filtered ?r)) = mset ds"
    using dth dfi by simp
  have dj: "set (map domain (threats ?r)) \<inter> set (map domain (filtered ?r)) = {}"
    unfolding dth dfi by auto
  have len: "length (threats ?r) + length (filtered ?r) = length ds"
    by (simp add: th fi sum_length_filter_compl)
  have miss: "\<forall>d. res d = None \<longrightarrow>
         ?mk d = \<lparr>domain = d, is_threat = PBool True, confidence = PFloat 0.5,
                 reason = PStr ''LLM evaluation unavailable'', risk_level = PStr ''medium'',
                 timestamp = ts\<rparr>"
    by (simp add: threat_analysis_of_missing)
  from th fi dom t1 t2 ms dj len miss show ?thesis by blast
qed


text \<open>
  The theorem at two domains, the first with a verdict that is not a threat, the second
  with none.
\<close>

theorem C1_process_results_partition_witness:
  "[''a.com'' \<mapsto> no_threat_verdict ''a.com''] ''b.com'' = None
   \<and> threats (process_results [''a.com'', ''b.com''] [''a.com'' \<mapsto> no_threat_verdict ''a.com'']
        (create_dynamic_brand_config ''a'' None None None) 200 ''2025-01-01T00:00:00'')
      = [\<lparr>domain = ''b.com'', is_threat = PBool True, confidence = PFloat 0.5,
           reason = PStr ''LLM evaluation unavailable'', risk_level = PStr ''medium'',
           timestamp = ''2025-01-01T00:00:00''\<rparr>]
   \<and> filtered (process_results [''a.com'', ''b.com''] [''a.com'' \<mapsto> no_threat_verdict ''a.com'']
        (create_dynamic_brand_config ''a'' None None None) 200 ''2025-01-01T00:00:00'')
      = [\<lparr>domain = ''a.com'', is_threat = PBool False, confidence = PFloat 0.95,
           reason = PStr ''No threat detected'', risk_level = PStr ''low'',
           timestamp = ''2025-01-01T00:00:00''\<rparr>]"
  using C1_process_results_partition
    [of "[''a.com'', ''b.com'']" "[''a.com'' \<mapsto> no_threat_verdict ''a.com'']"
        "create_dynamic_brand_config ''a'' None None None" 200 "''2025-01-01T00:00:00''"]
  by (simp add: threat_analysis_of_def unavailable_verdict_def no_threat_verdict_def dict_get_def)

section \<open>The keyword filter\<close>




section \<open>The brand configuration\<close>

text \<open>
  Claim C7, at the brand name "tui" with no company name, industry or description. The
  name is the upper-cased brand name, the industry is "Business" and there are four
  notes, but the default description is built from the company name as it was passed,
  before the brand name takes its place: it starts with the text None and names
  neither the company nor the brand.
\<close>

theorem C7_default_description_names_None:
  \<open>create_dynamic_brand_config ''tui'' None None None =
     \<lparr>name = ''TUI'',
      industry = ''Business'',
      description =
        ''None is a company that users want to protect from domain impersonation and cybersquatting.'',
      context_notes =
        [''Focus on domains that could confuse customers of tui'',
         ''Consider domains that impersonate tui services'',
         ''Filter out domains where "tui" appears coincidentally'',
         ''Evaluate based on business context and customer confusion potential'']\<rparr>\<close>
  by (simp add: create_dynamic_brand_config_def or_else_def fmt_opt_def upper_def upper_char_def
      lower_def lower_char_def)

section \<open>Saving the results\<close>

text \<open>
  Claim C8, at the output path "/tmp/out.csv". The path does not start with "data/", so
  its base is joined to "data"; joining an absolute path gives that path, and every
  file is written under "/tmp", none under "data". Which files are written is as
  the claim says: the two CSV files for the lists that are not empty, and always the
  JSON file.
\<close>

theorem C8_absolute_path_leaves_data:
  "output_base_path ''/tmp/out.csv'' = ''/tmp/out''
   \<and> \<not> prefix ''data/'' (output_base_path ''/tmp/out.csv'')
   \<and> map fst (save_results res ''/tmp/out.csv'') =
        (if threats res \<noteq> [] then [''/tmp/out_threats.csv''] else [])
        @ (if filtered res \<noteq> [] then [''/tmp/out_filtered.csv''] else [])
        @ [''/tmp/out_complete.json'']"
proof -
  have r1: "remove_all ''.csv'' ''/tmp/out.csv'' = ''/tmp/out''"
    by simp
  have r2: "remove_all ''.json'' ''/tmp/out'' = ''/tmp/out''"
    by simp
  have b: "output_base_path ''/tmp/out.csv'' = ''/tmp/out''"
    by (simp add: output_base_path_def r1 r2 path_join_def)
  show ?thesis
    by (simp add: b save_results_def)
qed

section \<open>The client: retries and fallbacks\<close>

lemma assign_each_apply:
  "assign_each f ds res d = (if d \<in> set ds then Some (f d) else res d)"
  by (induction ds arbitrary: res) auto

lemma attempts_range: "[0..<max_retries] = [0, 1, 2]"
  by (simp add: max_retries_def upt_rec)

lemma attempts_loop_non_overload:
  assumes "svc (length (requests st)) = Raises msg" and "\<not> is_overload msg"
  shows "attempts_loop svc rnd loads batch batch_num (attempt # rest) st =
     st\<lparr>requests := requests st @ [batch],
        warnings := warnings st @ [BatchError batch_num (attempt + 1) msg,
                                   NonRecoverable batch_num msg],
        results := assign_each (fallback_verdict (''API error: '' @ msg)) batch (results st)\<rparr>"
  using assms by (simp add: Let_def)

text \<open>
  Claim C4. For every batch, when the first generation attempt raises an error whose
  message does not indicate overload, the client makes exactly one request for the
  batch, sleeps and draws no random number during its attempts, gives every domain of
  the batch the verdict relevant, confidence 0.5, risk level "medium" with the reason
  "API error: " followed by the message (which so contains the message), leaves the
  verdicts of all other domains as they were, and goes on with the next batch (after
  the pause between batches, when the batch is not the last one).
\<close>

theorem C4_non_overload_error:
  assumes "svc (length (requests st)) = Raises msg"
    and "\<not> is_overload msg"
    and "batch = take bsz (drop i domains)"
    and "batch_num = i div bsz + 1"
    and "st' = attempts_loop svc rnd loads batch batch_num [0..<max_retries] st"
  shows "requests st' = requests st @ [batch]
   \<and> sleeps st' = sleeps st
   \<and> draws st' = draws st
   \<and> (\<forall>d \<in> set batch. results st' d =
         Some [(''domain'', PStr d), (''relevant'', PBool True), (''confidence'', PFloat 0.5),
               (''reason'', PStr (''API error: '' @ msg)), (''risk_level'', PStr ''medium'')])
   \<and> (\<forall>d. d \<notin> set batch \<longrightarrow> results st' d = results st d)
   \<and> py_in msg (''API error: '' @ msg)
   \<and> batches_loop svc rnd loads domains bsz total_batches (i # idxs) st =
       batches_loop svc rnd loads domains bsz total_batches idxs
         (if batch_num < total_batches
          then st'\<lparr>sleeps := sleeps st' @ [of_nat base_wait + uniform 0 3 (rnd (draws st'))],
                   draws := draws st' + 1\<rparr>
          else st')"
proof -
  have st': "st' = st\<lparr>requests := requests st @ [batch],
        warnings := warnings st @ [BatchError batch_num (0 + 1) msg, NonRecoverable batch_num msg],
        results := assign_each (fallback_verdict (''API error: '' @ msg)) batch (results st)\<rparr>"
    unfolding assms(5) attempts_range
    by (rule attempts_loop_non_overload [where svc = svc and st = st and msg = msg, OF assms(1,2)])
  have a: "requests st' = requests st @ [batch]" by (simp add: st')
  have b: "sleeps st' = sleeps st" by (simp add: st')
  have c: "draws st' = draws st" by (simp add: st')
  have d: "\<forall>d \<in> set batch. results st' d =
         Some [(''domain'', PStr d), (''relevant'', PBool True), (''confidence'', PFloat 0.5),
               (''reason'', PStr (''API error: '' @ msg)), (''risk_level'', PStr ''medium'')]"
    by (simp add: st' assign_each_apply fallback_verdict_def)
  have e: "\<forall>d. d \<notin> set batch \<longrightarrow> results st' d = results st d"
    by (simp add: st' assign_each_apply)
  have "\<exists>p s. ''API error: '' @ msg = p @ msg @ s"
    by (rule exI [of _ "''API error: ''"], rule exI [of _ "[]"]) simp
  then have f: "py_in msg (''API error: '' @ msg)"
    by (simp only: py_in_iff)
  have g: "batches_loop svc rnd loads domains bsz total_batches (i # idxs) st =
       batches_loop svc rnd loads domains bsz total_batches idxs
         (if batch_num < total_batches
          then st'\<lparr>sleeps := sleeps st' @ [of_nat base_wait + uniform 0 3 (rnd (draws st'))],
                   draws := draws st' + 1\<rparr>
          else st')"
    unfolding assms(3,4,5) by (simp add: Let_def)
  from a b c d e f g show ?thesis by blast
qed

lemma attempts_loop_overload_retry:
  assumes "svc (length (requests st)) = Raises msg" and "is_overload msg"
    and "attempt < max_retries - 1"
  shows "attempts_loop svc rnd loads batch batch_num (attempt # rest) st =
     attempts_loop svc rnd loads batch batch_num rest
       (st\<lparr>requests := requests st @ [batch],
           sleeps := sleeps st @ [of_nat (base_wait * 2 ^ attempt) + uniform 0 5 (rnd (draws st))],
           draws := draws st + 1,
           warnings := warnings st @ [BatchError batch_num (attempt + 1) msg,
             Overloaded (of_nat (base_wait * 2 ^ attempt) + uniform 0 5 (rnd (draws st)))]\<rparr>)"
  using assms by (simp add: Let_def)

lemma attempts_loop_overload_last:
  assumes "svc (length (requests st)) = Raises msg" and "is_overload msg"
    and "\<not> attempt < max_retries - 1"
  shows "attempts_loop svc rnd loads batch batch_num (attempt # rest) st =
     attempts_loop svc rnd loads batch batch_num rest
       (st\<lparr>requests := requests st @ [batch],
           results := assign_each (fallback_verdict ''API overloaded after 3 retries'') batch (results st),
           warnings := warnings st @ [BatchError batch_num (attempt + 1) msg,
             MaxRetriesReached batch_num]\<rparr>)"
  using assms by (simp add: Let_def max_retries_def)


lemma uniform_bounds: "0 \<le> r \<Longrightarrow> r < 1 \<Longrightarrow> 0 \<le> uniform 0 5 r \<and> uniform 0 5 r < 5"
  by (simp add: uniform_def)

text \<open>
  Claim C3. For every batch, when each of its generation attempts raises an error whose
  message contains "503", or "overloaded" or "unavailable" without regard to case, the
  client tries exactly three times (the loop over \<open>range(max_retries)\<close>): three requests
  are made for the batch, with a sleep of \<open>15 * 2 ^ attempt\<close> seconds plus a jitter in
  [0, 5) after attempt 0 and after attempt 1, the second sleep longer than the first,
  and none after the third attempt. Then every domain of the batch has the verdict
  relevant, confidence 0.5, reason "API overloaded after 3 retries", risk level
  "medium", the verdicts of all other domains are as they were, and the loop goes on
  with the next batch. The values of \<open>random.random()\<close> lie in [0, 1).
\<close>

theorem C3_overload_exhausts_attempts:
  assumes "\<forall>k<max_retries. \<exists>m. svc (length (requests st) + k) = Raises m \<and> is_overload m"
    and "\<forall>k. 0 \<le> rnd k \<and> rnd k < 1"
    and "batch = take bsz (drop i domains)"
    and "batch_num = i div bsz + 1"
    and "st' = attempts_loop svc rnd loads batch batch_num [0..<max_retries] st"
  shows "requests st' = requests st @ [batch, batch, batch]
   \<and> sleeps st' = sleeps st @ [15 * 2 ^ 0 + uniform 0 5 (rnd (draws st)),
                                15 * 2 ^ 1 + uniform 0 5 (rnd (draws st + 1))]
   \<and> 0 \<le> uniform 0 5 (rnd (draws st)) \<and> uniform 0 5 (rnd (draws st)) < 5
   \<and> 0 \<le> uniform 0 5 (rnd (draws st + 1)) \<and> uniform 0 5 (rnd (draws st + 1)) < 5
   \<and> 15 * 2 ^ 0 + uniform 0 5 (rnd (draws st)) < 15 * 2 ^ 1 + uniform 0 5 (rnd (draws st + 1))
   \<and> (\<forall>d \<in> set batch. results st' d =
         Some [(''domain'', PStr d), (''relevant'', PBool True), (''confidence'', PFloat 0.5),
               (''reason'', PStr ''API overloaded after 3 retries''),
               (''risk_level'', PStr ''medium'')])
   \<and> (\<forall>d. d \<notin> set batch \<longrightarrow> results st' d = results st d)
   \<and> batches_loop svc rnd loads domains bsz total_batches (i # idxs) st =
       batches_loop svc rnd loads domains bsz total_batches idxs
         (if batch_num < total_batches
          then st'\<lparr>sleeps := sleeps st' @ [of_nat base_wait + uniform 0 3 (rnd (draws st'))],
                   draws := draws st' + 1\<rparr>
          else st')"
proof -
  from assms(1) obtain m0 where m0: "svc (length (requests st)) = Raises m0" "is_overload m0"
    by (auto simp: max_retries_def dest: spec [of _ 0])
  from assms(1) obtain m1 where m1: "svc (length (requests st) + 1) = Raises m1" "is_overload m1"
    by (auto simp: max_retries_def dest: spec [of _ 1])
  from assms(1) obtain m2 where m2: "svc (length (requests st) + 2) = Raises m2" "is_overload m2"
    by (auto simp: max_retries_def dest: spec [of _ 2])
  let ?w0 = "of_nat (base_wait * 2 ^ 0) + uniform 0 5 (rnd (draws st))"
  let ?w1 = "of_nat (base_wait * 2 ^ 1) + uniform 0 5 (rnd (draws st + 1))"
  let ?s1 = "st\<lparr>requests := requests st @ [batch],
           sleeps := sleeps st @ [?w0],
           draws := draws st + 1,
           warnings := warnings st @ [BatchError batch_num (0 + 1) m0, Overloaded ?w0]\<rparr>"
  let ?s2 = "?s1\<lparr>requests := requests ?s1 @ [batch],
           sleeps := sleeps ?s1 @ [of_nat (base_wait * 2 ^ 1) + uniform 0 5 (rnd (draws ?s1))],
           draws := draws ?s1 + 1,
           warnings := warnings ?s1 @ [BatchError batch_num (1 + 1) m1,
             Overloaded (of_nat (base_wait * 2 ^ 1) + uniform 0 5 (rnd (draws ?s1)))]\<rparr>"
  let ?s3 = "?s2\<lparr>requests := requests ?s2 @ [batch],
           results := assign_each (fallback_verdict ''API overloaded after 3 retries'') batch
                        (results ?s2),
           warnings := warnings ?s2 @ [BatchError batch_num (2 + 1) m2,
             MaxRetriesReached batch_num]\<rparr>"
  have step1: "attempts_loop svc rnd loads batch batch_num [0, 1, 2] st
      = attempts_loop svc rnd loads batch batch_num [1, 2] ?s1"
    by (rule attempts_loop_overload_retry [where msg = m0]) (simp_all add: m0 max_retries_def)
  have step2: "attempts_loop svc rnd loads batch batch_num [1, 2] ?s1
      = attempts_loop svc rnd loads batch batch_num [2] ?s2"
    using m1 by (intro attempts_loop_overload_retry [where msg = m1]) (simp_all add: max_retries_def)
  have step3: "attempts_loop svc rnd loads batch batch_num [2] ?s2
      = attempts_loop svc rnd loads batch batch_num [] ?s3"
    using m2 by (intro attempts_loop_overload_last [where msg = m2])
       (simp_all add: max_retries_def numeral_2_eq_2)
  have st': "st' = ?s3"
    unfolding assms(5) attempts_range step1 step2 step3 by simp
  have a: "requests st' = requests st @ [batch, batch, batch]"
    by (simp add: st')
  have b: "sleeps st' = sleeps st @ [15 * 2 ^ 0 + uniform 0 5 (rnd (draws st)),
                                15 * 2 ^ 1 + uniform 0 5 (rnd (draws st + 1))]"
    by (simp add: st' base_wait_def)
  have j0: "0 \<le> uniform 0 5 (rnd (draws st)) \<and> uniform 0 5 (rnd (draws st)) < 5"
    using assms(2) by (simp add: uniform_bounds)
  have j1: "0 \<le> uniform 0 5 (rnd (draws st + 1)) \<and> uniform 0 5 (rnd (draws st + 1)) < 5"
    using assms(2) by (simp add: uniform_bounds)
  have inc: "15 * 2 ^ 0 + uniform 0 5 (rnd (draws st))
      < 15 * 2 ^ 1 + uniform 0 5 (rnd (draws st + 1))"
    using j0 j1 by simp
  have d: "\<forall>d \<in> set batch. results st' d =
         Some [(''domain'', PStr d), (''relevant'', PBool True), (''confidence'', PFloat 0.5),
               (''reason'', PStr ''API overloaded after 3 retries''),
               (''risk_level'', PStr ''medium'')]"
    by (simp add: st' assign_each_apply fallback_verdict_def)
  have e: "\<forall>d. d \<notin> set batch \<longrightarrow> results st' d = results st d"
    by (simp add: st' assign_each_apply)
  have g: "batches_loop svc rnd loads domains bsz total_batches (i # idxs) st =
       batches_loop svc rnd loads domains bsz total_batches idxs
         (if batch_num < total_batches
          then st'\<lparr>sleeps := sleeps st' @ [of_nat base_wait + uniform 0 3 (rnd (draws st'))],
                   draws := draws st' + 1\<rparr>
          else st')"
    unfolding assms(3,4,5) by (simp add: Let_def)
  from a b j0 j1 inc d e g show ?thesis by blast
qed


text \<open>Claim C4 at a service that always answers "bad key", for a batch of one domain.\<close>

theorem C4_non_overload_error_witness:
  "\<not> is_overload ''bad key''
   \<and> requests (attempts_loop (\<lambda>n. Raises ''bad key'') (\<lambda>n. 0) (\<lambda>s. None) [''a.com''] 1
         [0..<max_retries] fresh_state) = [[''a.com'']]
   \<and> sleeps (attempts_loop (\<lambda>n. Raises ''bad key'') (\<lambda>n. 0) (\<lambda>s. None) [''a.com''] 1
         [0..<max_retries] fresh_state) = []
   \<and> results (attempts_loop (\<lambda>n. Raises ''bad key'') (\<lambda>n. 0) (\<lambda>s. None) [''a.com''] 1
         [0..<max_retries] fresh_state) ''a.com'' =
       Some [(''domain'', PStr ''a.com''), (''relevant'', PBool True), (''confidence'', PFloat 0.5),
             (''reason'', PStr ''API error: bad key''), (''risk_level'', PStr ''medium'')]"
proof -
  have h: "\<not> is_overload ''bad key''"
    by (simp add: is_overload_def lower_def lower_char_def)
  have s: "(\<lambda>n::nat. Raises ''bad key'') (length (requests fresh_state)) = Raises ''bad key''"
    by simp
  have "[''a.com''] = take 1 (drop 0 [''a.com''])" and "(1::nat) = 0 div 1 + 1"
    by simp_all
  from C4_non_overload_error [where svc = "\<lambda>n. Raises ''bad key''" and st = fresh_state
      and msg = "''bad key''" and rnd = "\<lambda>n. 0" and loads = "\<lambda>s. None"
      and total_batches = 1 and idxs = "[]", OF s h this refl]
  show ?thesis
    using h by (simp add: fresh_state_def)
qed

text \<open>
  Claim C3 at a service that always answers "503 UNAVAILABLE" and a random source that
  always gives one half: the two sleeps are 17.5 and 32.5 seconds.
\<close>

theorem C3_overload_exhausts_attempts_witness:
  "is_overload ''503 UNAVAILABLE''
   \<and> requests (attempts_loop (\<lambda>n. Raises ''503 UNAVAILABLE'') (\<lambda>n. 1 / 2) (\<lambda>s. None) [''a.com''] 1
         [0..<max_retries] fresh_state) = [[''a.com''], [''a.com''], [''a.com'']]
   \<and> sleeps (attempts_loop (\<lambda>n. Raises ''503 UNAVAILABLE'') (\<lambda>n. 1 / 2) (\<lambda>s. None) [''a.com''] 1
         [0..<max_retries] fresh_state) = [35 / 2, 65 / 2]
   \<and> results (attempts_loop (\<lambda>n. Raises ''503 UNAVAILABLE'') (\<lambda>n. 1 / 2) (\<lambda>s. None) [''a.com''] 1
         [0..<max_retries] fresh_state) ''a.com'' =
       Some [(''domain'', PStr ''a.com''), (''relevant'', PBool True), (''confidence'', PFloat 0.5),
             (''reason'', PStr ''API overloaded after 3 retries''),
             (''risk_level'', PStr ''medium'')]"
proof -
  have h: "is_overload ''503 UNAVAILABLE''"
    by (simp add: is_overload_def)
  then have s: "\<forall>k<max_retries. \<exists>m. (\<lambda>n::nat. Raises ''503 UNAVAILABLE'')
      (length (requests fresh_state) + k) = Raises m \<and> is_overload m"
    by simp
  have r: "\<forall>k::nat. 0 \<le> (\<lambda>n. 1 / 2 :: rat) k \<and> (\<lambda>n. 1 / 2 :: rat) k < 1"
    by simp
  have "[''a.com''] = take 1 (drop 0 [''a.com''])" and "(1::nat) = 0 div 1 + 1"
    by simp_all
  from C3_overload_exhausts_attempts [where svc = "\<lambda>n. Raises ''503 UNAVAILABLE''"
      and st = fresh_state and rnd = "\<lambda>n. 1 / 2" and loads = "\<lambda>s. None"
      and total_batches = 1 and idxs = "[]", OF s r this refl]
  show ?thesis
    using h by (simp add: fresh_state_def uniform_def)
qed

section \<open>The orchestrator: what the metadata records\<close>





lemma metadata_process_results:
  "keyword (metadata (process_results ds res cfg bsz ts)) = lower (name cfg)"
  "batch_size (metadata (process_results ds res cfg bsz ts)) = bsz"
  "total_domains (metadata (process_results ds res cfg bsz ts)) = length ds"
  "brand (metadata (process_results ds res cfg bsz ts)) = name cfg"
  by (simp_all add: process_results_def split: prod.splits)










section \<open>Parsing the response\<close>















text \<open>
  A well-formed JSON object with an entry that names a batch domain and has a number as
  its risk level: \<open>lower\<close> raises, and the result is the empty mapping.
\<close>

lemma parse_response_risk_level_not_string:
  \<open>parse_response
        (\<lambda>s. if s = ''{"threats": [{"domain": "a.com", "risk_level": 3}]}''
           then Some (PDict [(''threats'', PList [PDict [(''domain'', PStr ''a.com''), (''risk_level'', PInt 3)]])]) else None)
        ''{"threats": [{"domain": "a.com", "risk_level": 3}]}'' [''a.com''] ''a.com'' = None\<close>
  by (simp add: re_search_braces_def parse_response_def verdicts_of_data_def dict_get_def)

section \<open>The percentage string\<close>

lemma round_half_even_near:
  assumes "\<bar>x - of_int d\<bar> < 1 / 2"
  shows "round_half_even x = d"
proof (cases "of_int d \<le> x")
  case True
  with assms have "x < of_int d + 1" by linarith
  with True have f: "\<lfloor>x\<rfloor> = d" by (intro floor_unique)
  from assms True have "x - of_int d < 1 / 2" by linarith
  with f show ?thesis by (simp add: round_half_even_def Let_def)
next
  case False
  have eq: "(of_int (d - 1) :: rat) = of_int d - 1" by simp
  from assms have "of_int d - 1 \<le> x" by linarith
  moreover from False have "x < of_int d - 1 + 1" by simp
  ultimately have f: "\<lfloor>x\<rfloor> = d - 1"
    unfolding eq [symmetric] by (intro floor_unique)
  from assms have "1 / 2 < x - (of_int d - 1)" by linarith
  then have "1 / 2 < x - of_int (d - 1)" by (simp only: eq)
  then have "\<not> x - of_int (d - 1) < 1 / 2" by linarith
  with f \<open>1 / 2 < x - of_int (d - 1)\<close> show ?thesis
    by (simp add: round_half_even_def Let_def)
qed

lemma round_half_even_error: "\<bar>of_int (round_half_even x) - x\<bar> \<le> 1 / 2"
proof -
  have "of_int \<lfloor>x\<rfloor> \<le> x" "x < of_int \<lfloor>x\<rfloor> + 1"
    by linarith+
  then show ?thesis
    by (auto simp: round_half_even_def Let_def)
qed

lemma round_half_even_nonneg: "0 \<le> x \<Longrightarrow> 0 \<le> round_half_even x"
proof -
  assume "0 \<le> x"
  then have "0 \<le> \<lfloor>x\<rfloor>" by simp
  then show ?thesis by (simp add: round_half_even_def Let_def)
qed

lemma bitlen_bounds: "0 < n \<Longrightarrow> 2 ^ (bitlen n - 1) \<le> n \<and> n < 2 ^ bitlen n"
proof (induction n rule: bitlen.induct)
  case (1 n)
  show ?case
  proof (cases "n div 2 = 0")
    case True
    with "1.prems" have "n = 1" by presburger
    then show ?thesis by simp
  next
    case False
    with "1.IH" "1.prems" have ih: "2 ^ (bitlen (n div 2) - 1) \<le> n div 2"
      "n div 2 < 2 ^ bitlen (n div 2)"
      by simp_all
    from False have pos: "0 < bitlen (n div 2)" by (subst bitlen.simps) simp
    from "1.prems" have bl: "bitlen n = Suc (bitlen (n div 2))" by (subst bitlen.simps) simp
    from pos have "(2::nat) ^ bitlen (n div 2) = 2 * 2 ^ (bitlen (n div 2) - 1)"
      by (cases "bitlen (n div 2)") simp_all
    with ih(1) have lo: "2 ^ bitlen (n div 2) \<le> n" by linarith
    from ih(2) have hi: "n < 2 * 2 ^ bitlen (n div 2)" by linarith
    from lo hi show ?thesis by (simp add: bl)
  qed
qed

lemma quotient_of_pos:
  assumes "0 < x" and "quotient_of x = (p, q)"
  shows "0 < p" and "0 < q" and "x = of_int p / of_int q"
proof -
  from assms(2) show q: "0 < q" by (rule quotient_of_denom_pos)
  from assms(2) show x: "x = of_int p / of_int q" by (rule quotient_of_div)
  from assms(1) x q show "0 < p" by (simp add: zero_less_divide_iff)
qed

lemma pow2_diff: "(2::rat) powi (int a - int b) = 2 ^ a / 2 ^ b"
proof -
  have "(2::rat) powi (int a - int b) = 2 powi (int a) / 2 powi (int b)"
    by (rule power_int_diff) simp
  then show ?thesis by (simp only: power_int_of_nat)
qed

lemma ilog2_le:
  assumes "0 < x"
  shows "2 powi (ilog2 x) \<le> x"
proof -
  obtain p q where pq: "quotient_of x = (p, q)" by (cases "quotient_of x")
  note pos = quotient_of_pos [OF assms pq]
  define a where "a = bitlen (nat p)"
  define b where "b = bitlen (nat q)"
  define e0 where "e0 = int a - int b - 1"
  from pos have np: "0 < nat p" and nq: "0 < nat q" by simp_all
  from bitlen_bounds [OF np] have a1: "2 ^ (a - 1) \<le> nat p" by (simp add: a_def)
  from bitlen_bounds [OF nq] have b1: "nat q < 2 ^ b" by (simp add: b_def)
  from np have apos: "0 < a" unfolding a_def by (subst bitlen.simps) simp
  then have e0: "e0 = int (a - 1) - int b" by (simp add: e0_def)
  have "(2::rat) powi e0 = 2 ^ (a - 1) / 2 ^ b"
    unfolding e0 by (rule pow2_diff)
  also have "\<dots> \<le> of_nat (nat p) / 2 ^ b"
  proof -
    from a1 have "(of_nat (2 ^ (a - 1)) :: rat) \<le> of_nat (nat p)"
      by (simp only: of_nat_le_iff)
    then have "(2 ^ (a - 1) :: rat) \<le> of_nat (nat p)" by simp
    then show ?thesis by (rule divide_right_mono) simp
  qed
  also have "\<dots> \<le> of_nat (nat p) / of_nat (nat q)"
  proof -
    from b1 have "(of_nat (nat q) :: rat) < of_nat (2 ^ b)"
      by (simp only: of_nat_less_iff)
    then have "(of_nat (nat q) :: rat) \<le> 2 ^ b" by simp
    moreover from nq have "(0::rat) < of_nat (nat q)" by simp
    ultimately show ?thesis by (intro divide_left_mono) simp_all
  qed
  also have "\<dots> = x"
  proof -
    from pos have "(of_nat (nat p) :: rat) = of_int p" "(of_nat (nat q) :: rat) = of_int q"
      by simp_all
    with pos(3) show ?thesis by simp
  qed
  finally have low: "2 powi e0 \<le> x" .
  have "ilog2 x = (if 2 powi (e0 + 1) \<le> x then e0 + 1 else e0)"
    unfolding ilog2_def pq e0_def a_def b_def by (simp only: Let_def prod.case)
  with low show ?thesis by (cases "2 powi (e0 + 1) \<le> x") simp_all
qed

lemma fl_pos_eq:
  "0 < x \<Longrightarrow> fl x = of_int (round_half_even (x / 2 powi (ilog2 x - 52))) * 2 powi (ilog2 x - 52)"
  by (simp add: fl_def Let_def)

lemma ulp_le:
  assumes "0 < x"
  shows "(2::rat) powi (ilog2 x - 52) \<le> x / 2 ^ 52"
proof -
  have "(2::rat) powi (ilog2 x - 52) = 2 powi (ilog2 x) / 2 powi 52"
    by (rule power_int_diff) simp
  also have "(2::rat) powi 52 = 2 ^ 52"
    by (simp only: power_int_numeral)
  also have "2 powi (ilog2 x) / 2 ^ 52 \<le> x / 2 ^ 52"
    using ilog2_le [OF assms] by (rule divide_right_mono) simp
  finally show ?thesis .
qed

lemma fl_error:
  assumes "0 < x"
  shows "\<bar>fl x - x\<bar> \<le> x / 2 ^ 53"
proof -
  define u :: rat where "u = 2 powi (ilog2 x - 52)"
  define k :: int where "k = round_half_even (x / u)"
  have upos: "0 < u" by (simp add: u_def)
  from assms have fl: "fl x = of_int k * u"
    unfolding k_def u_def by (rule fl_pos_eq)
  from upos have "x = x / u * u" by simp
  then have "fl x - x = of_int k * u - x / u * u" by (simp only: fl)
  then have "fl x - x = (of_int k - x / u) * u" by (simp only: left_diff_distrib)
  then have "\<bar>fl x - x\<bar> = \<bar>of_int k - x / u\<bar> * \<bar>u\<bar>" by (simp only: abs_mult)
  with upos have "\<bar>fl x - x\<bar> = \<bar>of_int k - x / u\<bar> * u" by simp
  also have "\<dots> \<le> 1 / 2 * u"
    using round_half_even_error [of "x / u"] upos
    unfolding k_def by (intro mult_right_mono) simp_all
  also have "\<dots> \<le> 1 / 2 * (x / 2 ^ 52)"
    using ulp_le [OF assms] unfolding u_def by (intro mult_left_mono) simp_all
  also have "\<dots> = x / 2 ^ 53" by simp
  finally show ?thesis .
qed

lemma fl_zero: "fl 0 = 0"
  by (simp add: fl_def)

lemma fl_nonneg:
  assumes "0 \<le> x"
  shows "0 \<le> fl x"
proof (cases "x = 0")
  case True
  then show ?thesis by (simp add: fl_zero)
next
  case False
  with assms have x: "0 < x" by simp
  have "0 \<le> x / 2 powi (ilog2 x - 52)"
    using x by simp
  then have "0 \<le> round_half_even (x / 2 powi (ilog2 x - 52))"
    by (rule round_half_even_nonneg)
  then have "0 \<le> of_int (round_half_even (x / 2 powi (ilog2 x - 52))) * (2::rat) powi (ilog2 x - 52)"
    by (intro mult_nonneg_nonneg) simp_all
  then show ?thesis by (simp only: fl_pos_eq [OF x])
qed

lemma fl_upper:
  assumes "0 \<le> x"
  shows "fl x \<le> x * (1001 / 1000)"
proof (cases "x = 0")
  case True
  then show ?thesis by (simp add: fl_zero)
next
  case False
  with assms have x: "0 < x" by simp
  from fl_error [OF x] have "fl x \<le> x + x / 2 ^ 53" by linarith
  moreover have "x / 2 ^ 53 \<le> x / 1000"
    using x by (intro divide_left_mono) simp_all
  ultimately show ?thesis by simp
qed

lemma percent_bounds:
  assumes "a \<le> b" and "0 < b"
  shows "0 \<le> py_fmul (py_truediv a b) 100" and "py_fmul (py_truediv a b) 100 \<le> 101"
proof -
  define r :: rat where "r = of_nat a / of_nat b"
  from assms have r0: "0 \<le> r" and r1: "r \<le> 1"
    by (simp_all add: r_def)
  have y0: "0 \<le> fl r" using r0 by (rule fl_nonneg)
  have "fl r \<le> r * (1001 / 1000)" using r0 by (rule fl_upper)
  with r1 have y1: "fl r \<le> 1001 / 1000" by linarith
  from y0 have z0: "0 \<le> fl r * 100" by simp
  from y1 have z1: "fl r * 100 \<le> 1001 / 10" by linarith
  have p: "py_fmul (py_truediv a b) 100 = fl (fl r * 100)"
    by (simp add: py_fmul_def py_truediv_def r_def)
  show "0 \<le> py_fmul (py_truediv a b) 100"
    unfolding p using z0 by (rule fl_nonneg)
  have "fl (fl r * 100) \<le> fl r * 100 * (1001 / 1000)" using z0 by (rule fl_upper)
  with z1 show "py_fmul (py_truediv a b) 100 \<le> 101"
    unfolding p by linarith
qed

lemma round1_digits:
  assumes "0 \<le> x" and "x \<le> 101"
  shows "0 \<le> py_round1 x" and "round_half_even (py_round1 x * 10) = round_half_even (x * 10)"
proof -
  define d :: int where "d = round_half_even (x * 10)"
  from assms(1) have "0 \<le> x * 10" by simp
  then have d0: "0 \<le> d" unfolding d_def by (rule round_half_even_nonneg)
  from round_half_even_error [of "x * 10"] have "of_int d \<le> x * 10 + 1 / 2"
    unfolding d_def by linarith
  with assms(2) have d1: "(of_int d :: rat) \<le> 1011" by linarith
  have y: "py_round1 x = fl (of_int d / 10)"
    by (simp add: py_round1_def d_def)
  from d0 have q0: "(0::rat) \<le> of_int d / 10" by simp
  show "0 \<le> py_round1 x"
    unfolding y using q0 by (rule fl_nonneg)
  have "\<bar>fl (of_int d / 10) * 10 - of_int d\<bar> < 1 / 2"
  proof (cases "d = 0")
    case True
    then show ?thesis by (simp add: fl_zero)
  next
    case False
    with d0 have "(0::rat) < of_int d / 10" by simp
    from fl_error [OF this]
    have "\<bar>fl (of_int d / 10) - of_int d / 10\<bar> \<le> of_int d / 10 / 2 ^ 53" .
    then have "\<bar>fl (of_int d / 10) - of_int d / 10\<bar> * 10 \<le> of_int d / 10 / 2 ^ 53 * 10"
      by (rule mult_right_mono) simp
    moreover have "\<bar>fl (of_int d / 10) * 10 - of_int d\<bar>
        = \<bar>fl (of_int d / 10) - of_int d / 10\<bar> * 10"
    proof -
      have "fl (of_int d / 10) * 10 - of_int d = (fl (of_int d / 10) - of_int d / 10) * 10"
        by (simp add: left_diff_distrib)
      then show ?thesis by (simp only: abs_mult abs_numeral)
    qed
    moreover have "(of_int d :: rat) / 10 / 2 ^ 53 * 10 = of_int d / 2 ^ 53"
      by simp
    moreover from d1 have "(of_int d :: rat) / 2 ^ 53 \<le> 1011 / 2 ^ 53"
      by (rule divide_right_mono) simp
    moreover have "(1011::rat) / 2 ^ 53 < 1 / 2"
      by simp
    ultimately show ?thesis by linarith
  qed
  then have "round_half_even (fl (of_int d / 10) * 10) = d"
    by (rule round_half_even_near)
  then show "round_half_even (py_round1 x * 10) = round_half_even (x * 10)"
    by (simp only: y d_def)
qed

lemma format_1f_round1:
  assumes "0 \<le> x" and "x \<le> 101"
  shows "format_1f (py_round1 x) = format_1f x"
proof -
  from round1_digits [OF assms] have y0: "0 \<le> py_round1 x"
    and e: "round_half_even (py_round1 x * 10) = round_half_even (x * 10)"
    by simp_all
  from y0 have ay: "\<bar>py_round1 x\<bar> = py_round1 x" and ny: "\<not> py_round1 x < 0" by simp_all
  from assms(1) have ax: "\<bar>x\<bar> = x" and nx: "\<not> x < 0" by simp_all
  show ?thesis
    unfolding format_1f_def ay ax e by (simp only: ny nx if_False)
qed

lemma length_filtered_process_results:
  "length (filtered (process_results ds res cfg bsz ts)) \<le> length ds"
  by (simp add: filtered_process_results)

lemma reduction_process_results:
  "false_positive_reduction (metadata (process_results ds res cfg bsz ts))
     = reduction_string (length (filtered (process_results ds res cfg bsz ts))) (length ds)"
  "filtered_count (metadata (process_results ds res cfg bsz ts))
     = length (filtered (process_results ds res cfg bsz ts))"
  by (simp_all add: process_results_def split: prod.splits)

text \<open>
  Claim C6. For every non-empty list of input domains, \<open>false_positive_reduction\<close> is
  \<open>round(filtered_count / total_domains * 100, 1)\<close> written with one decimal place and
  followed by "%", where the division and the product are the floating-point ones,
  \<open>round(x, 1)\<close> is the double nearest to the one-decimal rounding of \<open>x\<close>, and the two
  counts are those of the metadata, the number of filtered entries and the number of
  input domains; for the empty list it is "0.0%".
\<close>

theorem C6_false_positive_reduction:
  "(ds \<noteq> [] \<longrightarrow>
      false_positive_reduction (metadata (process_results ds res cfg bsz ts)) =
        format_1f (py_round1 (py_fmul
          (py_truediv (filtered_count (metadata (process_results ds res cfg bsz ts)))
                      (total_domains (metadata (process_results ds res cfg bsz ts)))) 100))
        @ ''%'')
   \<and> false_positive_reduction (metadata (process_results [] res cfg bsz ts)) = ''0.0%''
   \<and> filtered_count (metadata (process_results ds res cfg bsz ts))
       = length (filtered (process_results ds res cfg bsz ts))
   \<and> total_domains (metadata (process_results ds res cfg bsz ts)) = length ds"
proof -
  let ?r = "process_results ds res cfg bsz ts"
  let ?n = "length (filtered ?r)"
  have fc: "filtered_count (metadata ?r) = ?n"
    by (rule reduction_process_results)
  have td: "total_domains (metadata ?r) = length ds"
    by (rule metadata_process_results)
  have empty: "false_positive_reduction (metadata (process_results [] res cfg bsz ts)) = ''0.0%''"
    by (simp add: reduction_process_results reduction_string_def)
  have nonempty: "false_positive_reduction (metadata ?r) =
        format_1f (py_round1 (py_fmul (py_truediv (filtered_count (metadata ?r))
          (total_domains (metadata ?r))) 100)) @ ''%''"
    if ne: "ds \<noteq> []"
  proof -
    from ne have pos: "0 < length ds" by simp
    have le: "?n \<le> length ds" by (rule length_filtered_process_results)
    have "format_1f (py_round1 (py_fmul (py_truediv ?n (length ds)) 100))
        = format_1f (py_fmul (py_truediv ?n (length ds)) 100)"
      by (rule format_1f_round1) (rule percent_bounds [OF le pos])+
    moreover from ne have "false_positive_reduction (metadata ?r)
        = format_1f (py_fmul (py_truediv ?n (length ds)) 100) @ ''%''"
      by (simp add: reduction_process_results reduction_string_def)
    ultimately show ?thesis by (simp only: fc td)
  qed
  from nonempty empty fc td show ?thesis by blast
qed

lemma half_percent: "py_fmul (py_truediv 1 2) 100 = 50"
  by code_simp

lemma round1_fifty: "py_round1 50 = 50"
  by code_simp

lemma format_fifty: "format_1f 50 = ''50.0''"
  by code_simp

text \<open>Claim C6 at two domains of which one is filtered: the string is "50.0%".\<close>

theorem C6_false_positive_reduction_witness:
  "[''a.com'', ''b.com''] \<noteq> []
   \<and> false_positive_reduction (metadata (process_results [''a.com'', ''b.com'']
        [''a.com'' \<mapsto> no_threat_verdict ''a.com'']
        (create_dynamic_brand_config ''a'' None None None) 200 ''2025-01-01T00:00:00''))
     = ''50.0%''"
proof -
  let ?r = "process_results [''a.com'', ''b.com''] [''a.com'' \<mapsto> no_threat_verdict ''a.com'']
        (create_dynamic_brand_config ''a'' None None None) 200 ''2025-01-01T00:00:00''"
  have ne: "[''a.com'', ''b.com''] \<noteq> []" by simp
  have n: "length (filtered ?r) = 1"
    by (simp add: filtered_process_results threat_analysis_of_def unavailable_verdict_def
        no_threat_verdict_def dict_get_def)
  note t = C6_false_positive_reduction [of "[''a.com'', ''b.com'']"
      "[''a.com'' \<mapsto> no_threat_verdict ''a.com'']"
      "create_dynamic_brand_config ''a'' None None None" 200 "''2025-01-01T00:00:00''"]
  from t have "filtered_count (metadata ?r) = length (filtered ?r)"
    by (rule conjunct2 [THEN conjunct2, THEN conjunct1])
  with n have fc: "filtered_count (metadata ?r) = 1"
    by (simp only:)
  from t have "total_domains (metadata ?r) = length [''a.com'', ''b.com'']"
    by (rule conjunct2 [THEN conjunct2, THEN conjunct2])
  then have td: "total_domains (metadata ?r) = 2"
    by simp
  from t [THEN conjunct1, rule_format, OF ne]
  have "false_positive_reduction (metadata ?r) =
        format_1f (py_round1 (py_fmul (py_truediv 1 2) 100)) @ ''%''"
    by (simp only: fc td)
  then have "false_positive_reduction (metadata ?r) = ''50.0%''"
    by (simp only: half_percent round1_fifty format_fifty) simp
  with ne show ?thesis by (intro conjI)
qed

end
